theory Spec2Isabelle
  imports Main "HOL-Library.Sublist"
begin

section \<open>Data model of \<^verbatim>\<open>src/lib/common.js\<close>\<close>

text \<open>
  JavaScript strings are modelled as \<^typ>\<open>string\<close>. A value that may be
  \<^verbatim>\<open>undefined\<close> is an \<^typ>\<open>'a option\<close> with \<^term>\<open>None\<close> for
  \<^verbatim>\<open>undefined\<close>. The record type of a query is what the command layer captures
  with the pattern \<^verbatim>\<open>name_maybe_with_type\<close>: a string, or \<^verbatim>\<open>undefined\<close>
  when the optional group did not take part in the match.
\<close>

record hosted_zone =
  zone_Id :: string
  zone_Name :: string

text \<open>A resource record set: its identity (Name, Type) and the provider-defined payload.\<close>

record rrset =
  rr_Name :: string
  rr_Type :: string
  rr_Payload :: string

text \<open>The selector \<^verbatim>\<open>rr_data\<close> given to \<^verbatim>\<open>resourceRecord\<close>: the name of the
  record, and its type or \<^verbatim>\<open>undefined\<close> if not important.\<close>

record rr_data =
  Name :: string
  Type :: "string option"

text \<open>The second argument of \<^verbatim>\<open>nextRecordMatch\<close>: the object literal built from
  \<^verbatim>\<open>data.NextRecordName\<close> and \<^verbatim>\<open>data.NextRecordType\<close>, either of which the
  provider may leave undefined.\<close>

record next_record =
  next_Name :: "string option"
  next_Type :: "string option"

text \<open>Parameters of \<^verbatim>\<open>listResourceRecordSets\<close> as the provider operation reads them
  from the object it is given: the value of each key, undefined for a key that is absent.\<close>

record lrrs_params =
  HostedZoneId :: "string option"
  MaxItems :: "string option"
  StartRecordName :: "string option"
  StartRecordType :: "string option"

text \<open>The data of a \<^verbatim>\<open>listResourceRecordSets\<close> response.\<close>

record page =
  ResourceRecordSets :: "rrset list"
  IsTruncated :: bool
  NextRecordName :: "string option"
  NextRecordType :: "string option"

text \<open>Parameters of \<^verbatim>\<open>changeResourceRecordSets\<close>.\<close>

record change =
  Action :: string
  ResourceRecordSet :: rrset

record change_batch =
  Changes :: "change list"
  Comment :: "string option"

record crrs_params =
  crrs_HostedZoneId :: string
  ChangeBatch :: change_batch

text \<open>
  A provider operation answers with an error message (\<^term>\<open>Inl\<close>) or with data
  (\<^term>\<open>Inr\<close>).
\<close>

type_synonym 'a reply = "string + 'a"

text \<open>
  Every operation ends by invoking exactly one of its two continuations. The result
  \<^term>\<open>Inr\<close> stands for \<^verbatim>\<open>callback\<close> invoked with the value, \<^term>\<open>Inl\<close> for the error
  handler in force (the \<^verbatim>\<open>errback\<close> argument, or \<^verbatim>\<open>ctx.defaultErrorHandler\<close> when
  none was passed) invoked with a message. Each constructor of the type of errors is one
  call site of the error handler; \<open>message\<close> below is the text it passes.
\<close>

datatype error =
    ZoneNotFound
  | ZoneLookupFailed string
  | InvalidType string
  | PageFailed string
  | RecordNotFound
  | TypeMismatch
  | AmbiguousSelection
  | UpdateRejected string

fun message :: "error \<Rightarrow> string" where
  "message ZoneNotFound = ''Zone not found''"
| "message (ZoneLookupFailed r) = r"
| "message (InvalidType t) = ''Bad record type supplied \"'' @ t @ ''\"''"
| "message (PageFailed m) = m"
| "message RecordNotFound = ''No such record with given name''"
| "message TypeMismatch = ''No such record name with specified type''"
| "message AmbiguousSelection = ''Aambiguous records selection''"
| "message (UpdateRejected m) = m"

text \<open>The requests a context sends to the provider.\<close>

datatype api_call =
    ListHostedZones
  | ListResourceRecordSets lrrs_params
  | ChangeResourceRecordSets crrs_params

text \<open>
  The context \<^verbatim>\<open>ctx\<close>: the zone found before, if any, and (kept for the
  verification) the requests sent through the context's provider operations, oldest
  first.
\<close>

record ctx =
  zone :: "hosted_zone option"
  sent :: "api_call list"

section \<open>Name and type matching\<close>

text \<open>lodash \<^verbatim>\<open>_.endsWith(string, target)\<close>: the target is no longer than the string
  and the slice of that length at the end of the string equals the target.\<close>

definition endsWith :: "string \<Rightarrow> string \<Rightarrow> bool" where
  "endsWith s t = (length t \<le> length s \<and> drop (length s - length t) s = t)"

text \<open>The statement \<^verbatim>\<open>if (! _.endsWith(n, '.')) n += '.';\<close> that lines 22, 23, 89 and
  100 apply to a name before comparing it.\<close>

definition normalizeName :: "string \<Rightarrow> string" where
  "normalizeName n = (if \<not> endsWith n ''.'' then n @ ''.'' else n)"

definition recordNameMatch :: "string \<Rightarrow> string \<Rightarrow> bool" where
  "recordNameMatch n1 n2 = (normalizeName n1 = normalizeName n2)"

text \<open>An undefined type matches any type.\<close>

definition recordTypeMatch :: "string option \<Rightarrow> string option \<Rightarrow> bool" where
  "recordTypeMatch t1 t2 = (t1 = None \<or> t2 = None \<or> t1 = t2)"

definition nextRecordMatch :: "rr_data \<Rightarrow> next_record \<Rightarrow> bool" where
  "nextRecordMatch r1 r2 =
     (if next_Name r2 = None \<or> next_Type r2 = None then False
      else if \<not> recordNameMatch (Name r1) (the (next_Name r2)) then False
      else recordTypeMatch (Type r1) (next_Type r2))"

section \<open>Validation of a supplied record type\<close>

text \<open>\<^verbatim>\<open>patterns.valid_types\<close>: the alternatives of the pattern, in its order.\<close>

definition valid_types :: "string list" where
  "valid_types =
     [''SOA'', ''AAAA'', ''A'', ''TXT'', ''NS'', ''CNAME'', ''MX'', ''PTR'', ''SRV'', ''SPF'']"

text \<open>
  The flag \<^verbatim>\<open>i\<close> makes the regular expression compare characters after mapping each
  to upper case. Only the letters a to z are mapped onto characters that occur in the
  pattern.
\<close>

definition canonicalize :: "char \<Rightarrow> char" where
  "canonicalize c =
     (case map_of (zip ''abcdefghijklmnopqrstuvwxyz'' ''ABCDEFGHIJKLMNOPQRSTUVWXYZ'') c of
        None \<Rightarrow> c
      | Some u \<Rightarrow> u)"

text \<open>\<^verbatim>\<open>String(v)\<close>, the conversion \<^verbatim>\<open>RegExp.prototype.test\<close> applies to its
  argument.\<close>

definition toString :: "string option \<Rightarrow> string" where
  "toString v = (case v of None \<Rightarrow> ''undefined'' | Some s \<Rightarrow> s)"

text \<open>\<^verbatim>\<open>new RegExp('^' + patterns.valid_types + '$', 'i').test(v)\<close>: the whole string
  is one of the alternatives, ignoring case.\<close>

definition valid_types_test :: "string option \<Rightarrow> bool" where
  "valid_types_test v = (map canonicalize (toString v) \<in> set valid_types)"

section \<open>Zone lookup\<close>

text \<open>
  \<^verbatim>\<open>zoneWhere(predicate, callback, errback, ctx)\<close>. The argument \<open>hz\<close> is the provider's
  answer to \<^verbatim>\<open>listHostedZones\<close>, should the request be sent: an error, or
  \<^verbatim>\<open>r.data.HostedZones\<close>. \<^verbatim>\<open>_.find\<close> is \<^const>\<open>find\<close>.
\<close>

definition zoneWhere ::
  "(hosted_zone \<Rightarrow> bool) \<Rightarrow> hosted_zone list reply \<Rightarrow> ctx \<Rightarrow> (error + hosted_zone) \<times> ctx" where
  "zoneWhere predicate hz ctx =
     (if zone ctx \<noteq> None \<and> predicate (the (zone ctx)) then (Inr (the (zone ctx)), ctx)
      else
        (let ctx1 = ctx\<lparr>sent := sent ctx @ [ListHostedZones]\<rparr> in
         case hz of
           Inr HostedZones \<Rightarrow>
             (case find predicate HostedZones of
                None \<Rightarrow> (Inl ZoneNotFound, ctx1)
              | Some target \<Rightarrow> (Inr target, ctx1\<lparr>zone := Some target\<rparr>))
         | Inl r \<Rightarrow> (Inl (ZoneLookupFailed r), ctx1)))"

text \<open>The predicate that \<^verbatim>\<open>zoneNamed\<close> puts in front of its remaining arguments.\<close>

definition zoneNamed_predicate :: "string \<Rightarrow> hosted_zone \<Rightarrow> bool" where
  "zoneNamed_predicate zoneName =
     (let zoneName' = normalizeName zoneName in (\<lambda>zone. zone_Name zone = zoneName'))"

definition zoneNamed ::
  "string \<Rightarrow> hosted_zone list reply \<Rightarrow> ctx \<Rightarrow> (error + hosted_zone) \<times> ctx" where
  "zoneNamed zoneName hz ctx = zoneWhere (zoneNamed_predicate zoneName) hz ctx"

text \<open>The predicate of \<^verbatim>\<open>hostZone\<close>: the zone which contains the given host.\<close>

definition hostZone_predicate :: "string \<Rightarrow> hosted_zone \<Rightarrow> bool" where
  "hostZone_predicate host =
     (let host' = normalizeName host in (\<lambda>zone. endsWith host' (''.'' @ zone_Name zone)))"

definition hostZone ::
  "string \<Rightarrow> hosted_zone list reply \<Rightarrow> ctx \<Rightarrow> (error + hosted_zone) \<times> ctx" where
  "hostZone host hz ctx = zoneWhere (hostZone_predicate host) hz ctx"

section \<open>Point lookup of a record\<close>

text \<open>
  The callback that \<^verbatim>\<open>resourceRecord\<close> hands to \<^verbatim>\<open>listResourceRecordSets\<close>, on
  the data of a successful response.
\<close>

definition pickRecord :: "string \<Rightarrow> string option \<Rightarrow> page \<Rightarrow> error + rrset" where
  "pickRecord rr_name rr_type data =
     (case ResourceRecordSets data of
        [] \<Rightarrow> Inl RecordNotFound
      | result # _ \<Rightarrow>
          if recordNameMatch rr_name (rr_Name result) then
            if recordTypeMatch rr_type (Some (rr_Type result)) then
              if nextRecordMatch \<lparr>Name = rr_name, Type = rr_type\<rparr>
                   \<lparr>next_Name = NextRecordName data, next_Type = NextRecordType data\<rparr>
              then Inl AmbiguousSelection
              else Inr result
            else Inl TypeMismatch
          else Inl RecordNotFound)"

text \<open>
  The part of \<^verbatim>\<open>resourceRecord\<close> after the type has been checked (lines 125 to 152):
  find the zone of the host, request one record set starting at the name and type, and
  evaluate the answer. \<open>lrrs\<close> is the provider's answer to a
  \<^verbatim>\<open>listResourceRecordSets\<close> request.
\<close>

definition lookupRecord ::
  "string \<Rightarrow> string option \<Rightarrow> hosted_zone list reply \<Rightarrow> (lrrs_params \<Rightarrow> page reply) \<Rightarrow> ctx
     \<Rightarrow> (error + rrset) \<times> ctx" where
  "lookupRecord rr_name rr_type hz lrrs ctx =
     (case hostZone rr_name hz ctx of
        (Inl e, ctx1) \<Rightarrow> (Inl e, ctx1)
      | (Inr z, ctx1) \<Rightarrow>
          (let params = \<lparr>HostedZoneId = Some (zone_Id z), MaxItems = Some ''1'',
                          StartRecordName = Some rr_name, StartRecordType = rr_type\<rparr>;
               ctx2 = ctx1\<lparr>sent := sent ctx1 @ [ListResourceRecordSets params]\<rparr>
           in case lrrs params of
                Inl err_message \<Rightarrow> (Inl (PageFailed err_message), ctx2)
              | Inr data \<Rightarrow> (pickRecord rr_name rr_type data, ctx2)))"

text \<open>
  \<^verbatim>\<open>resourceRecord(rr_data, callback, errback, ctx)\<close>. \<^verbatim>\<open>rr_type\<close> stays undefined
  unless the supplied type passes the test, in which case it is the supplied type as it
  was given.
\<close>

definition resourceRecord ::
  "rr_data \<Rightarrow> hosted_zone list reply \<Rightarrow> (lrrs_params \<Rightarrow> page reply) \<Rightarrow> ctx
     \<Rightarrow> (error + rrset) \<times> ctx" where
  "resourceRecord rr_data hz lrrs ctx =
     (let rr_name = Name rr_data in
      if valid_types_test (Type rr_data) then lookupRecord rr_name (Type rr_data) hz lrrs ctx
      else if Type rr_data \<noteq> None then (Inl (InvalidType (the (Type rr_data))), ctx)
      else lookupRecord rr_name None hz lrrs ctx)"

section \<open>Enumeration of the record sets of a zone\<close>

text \<open>
  The options of \<^verbatim>\<open>zoneRecords\<close> that decide what it requests and delivers. (Its
  \<^verbatim>\<open>ctx\<close> and \<^verbatim>\<open>errback\<close> options only choose the receiver and the error handler.)
\<close>

text \<open>
  An object of request parameters as the code builds it and as \<^verbatim>\<open>_.extend\<close> sees it.
  A key is absent (\<^term>\<open>None\<close>) or present, and a present key holds a string or
  \<^verbatim>\<open>undefined\<close> (\<^term>\<open>Some None\<close>).
\<close>

record params_object =
  key_HostedZoneId :: "string option option"
  key_MaxItems :: "string option option"
  key_StartRecordName :: "string option option"
  key_StartRecordType :: "string option option"

record options =
  request_options :: "params_object option"
  predicate :: "(rrset \<Rightarrow> bool) option"

text \<open>\<^verbatim>\<open>_.extend(a, b)\<close>: every key present in \<open>b\<close> is copied onto \<open>a\<close> with its
  value, also when the value is undefined; the other keys of \<open>a\<close> stay.\<close>

definition extend_params :: "params_object \<Rightarrow> params_object \<Rightarrow> params_object" where
  "extend_params a b =
     \<lparr>key_HostedZoneId =
        (case key_HostedZoneId b of None \<Rightarrow> key_HostedZoneId a | Some v \<Rightarrow> Some v),
      key_MaxItems =
        (case key_MaxItems b of None \<Rightarrow> key_MaxItems a | Some v \<Rightarrow> Some v),
      key_StartRecordName =
        (case key_StartRecordName b of None \<Rightarrow> key_StartRecordName a | Some v \<Rightarrow> Some v),
      key_StartRecordType =
        (case key_StartRecordType b of None \<Rightarrow> key_StartRecordType a | Some v \<Rightarrow> Some v)\<rparr>"

text \<open>The object \<^verbatim>\<open>{}\<close>.\<close>

definition empty_params :: params_object where
  "empty_params =
     \<lparr>key_HostedZoneId = None, key_MaxItems = None, key_StartRecordName = None,
      key_StartRecordType = None\<rparr>"

text \<open>Reading the request parameters from an object: an absent key reads as undefined.\<close>

definition params_read :: "params_object \<Rightarrow> lrrs_params" where
  "params_read obj =
     \<lparr>HostedZoneId = (case key_HostedZoneId obj of None \<Rightarrow> None | Some v \<Rightarrow> v),
      MaxItems = (case key_MaxItems obj of None \<Rightarrow> None | Some v \<Rightarrow> v),
      StartRecordName = (case key_StartRecordName obj of None \<Rightarrow> None | Some v \<Rightarrow> v),
      StartRecordType = (case key_StartRecordType obj of None \<Rightarrow> None | Some v \<Rightarrow> v)\<rparr>"

text \<open>\<^verbatim>\<open>hreq_opts\<close> (line 165), as the page request reads it:
  \<^verbatim>\<open>_.extend({ HostedZoneId: zone.Id }, _options.request_options || {})\<close>.\<close>

definition hreq_opts :: "hosted_zone \<Rightarrow> options \<Rightarrow> lrrs_params" where
  "hreq_opts z opts =
     params_read
       (extend_params (empty_params\<lparr>key_HostedZoneId := Some (Some (zone_Id z))\<rparr>)
          (case request_options opts of None \<Rightarrow> empty_params | Some ro \<Rightarrow> ro))"

text \<open>What \<^verbatim>\<open>zoneRecords\<close> does that can be observed, in the order it does it.\<close>

datatype event =
    Request lrrs_params
  | Callback rrset
  | FinalCallback
  | Errback string

text \<open>
  \<^verbatim>\<open>zoneRecords(zone, callback, final_callback, _options)\<close>. The last argument is the
  sequence of answers the provider gives to the page requests, one for each request in
  turn; when it is used up the last request stays unanswered and nothing more happens.
\<close>

fun zoneRecords :: "hosted_zone \<Rightarrow> options \<Rightarrow> page reply list \<Rightarrow> event list" where
  "zoneRecords z opts [] = [Request (hreq_opts z opts)]"
| "zoneRecords z opts (answer # answers) =
     Request (hreq_opts z opts) #
     (case answer of
        Inl err_message \<Rightarrow> [Errback err_message]
      | Inr data \<Rightarrow>
          map Callback
            (filter (\<lambda>record. predicate opts = None \<or> the (predicate opts) record)
               (ResourceRecordSets data)) @
          (if IsTruncated data then
             zoneRecords z
               (opts\<lparr>request_options := Some
                  (empty_params\<lparr>key_StartRecordType := Some (NextRecordType data),
                                 key_StartRecordName := Some (NextRecordName data)\<rparr>)\<rparr>)
               answers
           else [FinalCallback]))"

section \<open>Update of a record\<close>

text \<open>The option \<^verbatim>\<open>comment\<close> of \<^verbatim>\<open>updateRecord\<close>.\<close>

record update_options =
  comment :: "string option"

text \<open>
  \<^verbatim>\<open>updateRecord(zone, old, _new, callback, options)\<close>. \<open>crrs\<close> is the provider's
  answer to a \<^verbatim>\<open>changeResourceRecordSets\<close> request.
\<close>

definition updateRecord ::
  "hosted_zone \<Rightarrow> rrset \<Rightarrow> rrset \<Rightarrow> update_options \<Rightarrow> (crrs_params \<Rightarrow> 'd reply) \<Rightarrow> ctx
     \<Rightarrow> (error + 'd) \<times> ctx" where
  "updateRecord z old new opts crrs ctx =
     (let params =
            \<lparr>crrs_HostedZoneId = zone_Id z,
             ChangeBatch =
               \<lparr>Changes = [\<lparr>Action = ''DELETE'', ResourceRecordSet = old\<rparr>,
                           \<lparr>Action = ''CREATE'', ResourceRecordSet = new\<rparr>],
                Comment = comment opts\<rparr>\<rparr>;
          ctx1 = ctx\<lparr>sent := sent ctx @ [ChangeResourceRecordSets params]\<rparr>
      in case crrs params of
           Inl err_message \<Rightarrow> (Inl (UpdateRejected err_message), ctx1)
         | Inr data \<Rightarrow> (Inr data, ctx1))"

section \<open>Observations on a trace of \<^verbatim>\<open>zoneRecords\<close>\<close>

text \<open>The requests sent, the records given to the callback and the messages given to the
  error handler, each in the order of the trace.\<close>

definition requests_of :: "event list \<Rightarrow> lrrs_params list" where
  "requests_of tr = concat (map (\<lambda>e. case e of Request p \<Rightarrow> [p] | _ \<Rightarrow> []) tr)"

definition delivered_of :: "event list \<Rightarrow> rrset list" where
  "delivered_of tr = concat (map (\<lambda>e. case e of Callback r \<Rightarrow> [r] | _ \<Rightarrow> []) tr)"

definition errors_of :: "event list \<Rightarrow> string list" where
  "errors_of tr = concat (map (\<lambda>e. case e of Errback m \<Rightarrow> [m] | _ \<Rightarrow> []) tr)"

text \<open>The records \<^verbatim>\<open>zoneRecords\<close> hands to its callback: all, or those the predicate of
  the options accepts.\<close>

definition accepted :: "options \<Rightarrow> rrset \<Rightarrow> bool" where
  "accepted opts record = (case predicate opts of None \<Rightarrow> True | Some f \<Rightarrow> f record)"

text \<open>The request that follows a truncated page: the zone, and the start the page declares.\<close>

definition next_request :: "hosted_zone \<Rightarrow> page \<Rightarrow> lrrs_params" where
  "next_request z data =
     \<lparr>HostedZoneId = Some (zone_Id z), MaxItems = None,
      StartRecordName = NextRecordName data, StartRecordType = NextRecordType data\<rparr>"

section \<open>Example data\<close>

definition ex_zone :: hosted_zone where
  "ex_zone = \<lparr>zone_Id = ''Z1'', zone_Name = ''example.com.''\<rparr>"

definition sub_zone :: hosted_zone where
  "sub_zone = \<lparr>zone_Id = ''Z2'', zone_Name = ''sub.example.com.''\<rparr>"

definition fresh_ctx :: ctx where
  "fresh_ctx = \<lparr>zone = None, sent = []\<rparr>"

definition rec_A :: rrset where
  "rec_A = \<lparr>rr_Name = ''a.example.com.'', rr_Type = ''A'', rr_Payload = ''192.0.2.1''\<rparr>"

definition page_empty :: page where
  "page_empty =
     \<lparr>ResourceRecordSets = [], IsTruncated = False, NextRecordName = None,
      NextRecordType = None\<rparr>"

definition page_A_then_CNAME :: page where
  "page_A_then_CNAME =
     \<lparr>ResourceRecordSets = [rec_A], IsTruncated = True,
      NextRecordName = Some ''a.example.com.'', NextRecordType = Some ''CNAME''\<rparr>"

definition rec_of :: "string \<Rightarrow> string \<Rightarrow> rrset" where
  "rec_of n ty = \<lparr>rr_Name = n, rr_Type = ty, rr_Payload = []\<rparr>"

definition page_1 :: page where
  "page_1 =
     \<lparr>ResourceRecordSets = [rec_of ''r0.example.com.'' ''A'', rec_of ''r1.example.com.'' ''TXT''],
      IsTruncated = True,
      NextRecordName = Some ''r2.example.com.'', NextRecordType = Some ''A''\<rparr>"

definition page_2 :: page where
  "page_2 =
     \<lparr>ResourceRecordSets = [rec_of ''r2.example.com.'' ''A'', rec_of ''r3.example.com.'' ''TXT''],
      IsTruncated = True,
      NextRecordName = Some ''r4.example.com.'', NextRecordType = Some ''A''\<rparr>"

definition page_3 :: page where
  "page_3 =
     \<lparr>ResourceRecordSets = [rec_of ''r4.example.com.'' ''A''], IsTruncated = False,
      NextRecordName = None, NextRecordType = None\<rparr>"

definition only_TXT :: options where
  "only_TXT = \<lparr>request_options = None, predicate = Some (\<lambda>record. rr_Type record = ''TXT'')\<rparr>"

definition page_NS :: page where
  "page_NS =
     \<lparr>ResourceRecordSets = [rec_of ''sub.example.com.'' ''NS''], IsTruncated = True,
      NextRecordName = Some ''www.example.com.'', NextRecordType = Some ''A''\<rparr>"

definition page_A_then_other :: page where
  "page_A_then_other =
     \<lparr>ResourceRecordSets = [rec_A], IsTruncated = True,
      NextRecordName = Some ''b.example.com.'', NextRecordType = Some ''A''\<rparr>"

section \<open>Properties of the matchers\<close>

lemma endsWith_suffix: "endsWith s t = suffix t s"
proof
  assume "endsWith s t"
  then have "s = take (length s - length t) s @ t"
    by (metis append_take_drop_id endsWith_def)
  then show "suffix t s" by (metis suffixI)
next
  assume "suffix t s"
  then obtain u where "s = u @ t" by (auto simp: suffix_def)
  then show "endsWith s t" by (simp add: endsWith_def)
qed

lemma endsWith_append_self [simp]: "endsWith (n @ t) t"
  by (simp add: endsWith_def)

lemma normalizeName_endsWith [simp]: "endsWith (normalizeName n) ''.''"
  by (simp add: normalizeName_def)

lemma normalizeName_fixed: "endsWith n ''.'' \<Longrightarrow> normalizeName n = n"
  by (simp add: normalizeName_def)

text \<open>
  Claim C10. Appending the trailing dot when it is absent is idempotent, and
  \<^verbatim>\<open>recordNameMatch\<close> gives the same answer on two names as on their normalized forms.
\<close>

theorem normalizeName_idempotent_match_invariant:
  "normalizeName (normalizeName a) = normalizeName a \<and>
   recordNameMatch a b = recordNameMatch (normalizeName a) (normalizeName b)"
  by (simp add: recordNameMatch_def normalizeName_fixed)

text \<open>
  Claim C8. \<^verbatim>\<open>nextRecordMatch(query, nextCandidate)\<close> is true if and only if the
  candidate has both its Name and its Type defined, the two names are equal after
  normalization, and the query's type is undefined or equal to the candidate's type. A
  candidate with an undefined Name or an undefined Type never matches.
\<close>

theorem nextRecordMatch_iff:
  "nextRecordMatch query nextCandidate =
     (\<exists>n t. next_Name nextCandidate = Some n \<and> next_Type nextCandidate = Some t \<and>
            normalizeName (Name query) = normalizeName n \<and>
            (Type query = None \<or> Type query = Some t)) \<and>
   nextRecordMatch query (nextCandidate\<lparr>next_Name := None\<rparr>) = False \<and>
   nextRecordMatch query (nextCandidate\<lparr>next_Type := None\<rparr>) = False"
  by (auto simp: nextRecordMatch_def recordNameMatch_def recordTypeMatch_def)

section \<open>Point lookup: from the request to the verdict\<close>

lemma resourceRecord_lookup:
  assumes "valid_types_test (Type q) \<or> Type q = None"
  shows "resourceRecord q hz lrrs ctx = lookupRecord (Name q) (Type q) hz lrrs ctx"
  using assms by (auto simp: resourceRecord_def Let_def)

lemma lookupRecord_page:
  assumes "hostZone rr_name hz ctx = (Inr z, ctx1)"
    and "lrrs \<lparr>HostedZoneId = Some (zone_Id z), MaxItems = Some ''1'',
                StartRecordName = Some rr_name, StartRecordType = rr_type\<rparr> = Inr data"
  shows "fst (lookupRecord rr_name rr_type hz lrrs ctx) = pickRecord rr_name rr_type data"
  using assms by (simp add: lookupRecord_def Let_def)

lemma hostZone_example:
  "hostZone ''a.example.com.'' (Inr [ex_zone]) fresh_ctx =
     (Inr ex_zone, \<lparr>zone = Some ex_zone, sent = [ListHostedZones]\<rparr>)"
  by (simp add: hostZone_def zoneWhere_def hostZone_predicate_def normalizeName_def
      endsWith_def ex_zone_def fresh_ctx_def)

text \<open>
  Claim C1. A query with undefined Type whose zone is found and whose page of one record
  holds a record \<open>R\<close> with the query's name, while the page declares a next record with
  a defined name, equal to the query's after normalization, and a defined type: the
  lookup ends in the error handler with the ambiguity error, and \<open>R\<close> is not returned.
\<close>

theorem wildcard_followed_by_same_name_is_ambiguous:
  assumes "Type q = None"
    and "hostZone (Name q) hz ctx = (Inr z, ctx1)"
    and "lrrs \<lparr>HostedZoneId = Some (zone_Id z), MaxItems = Some ''1'',
                StartRecordName = Some (Name q), StartRecordType = None\<rparr> = Inr data"
    and "ResourceRecordSets data = R # others"
    and "recordNameMatch (Name q) (rr_Name R)"
    and "NextRecordName data = Some n" and "NextRecordType data = Some t"
    and "recordNameMatch (Name q) n"
  shows "fst (resourceRecord q hz lrrs ctx) = Inl AmbiguousSelection \<and>
         fst (resourceRecord q hz lrrs ctx) \<noteq> Inr R"
proof -
  have "fst (resourceRecord q hz lrrs ctx) = pickRecord (Name q) None data"
    using assms(1-3) by (simp add: resourceRecord_lookup lookupRecord_page)
  moreover have "pickRecord (Name q) None data = Inl AmbiguousSelection"
    using assms(4-8) by (simp add: pickRecord_def nextRecordMatch_def recordTypeMatch_def)
  ultimately show ?thesis by simp
qed

theorem wildcard_followed_by_same_name_is_ambiguous_witness:
  "recordNameMatch ''a.example.com.'' (rr_Name rec_A) \<and>
   NextRecordName page_A_then_CNAME = Some ''a.example.com.'' \<and>
   NextRecordType page_A_then_CNAME = Some ''CNAME'' \<and>
   fst (resourceRecord \<lparr>Name = ''a.example.com.'', Type = None\<rparr> (Inr [ex_zone])
          (\<lambda>p. Inr page_A_then_CNAME) fresh_ctx) = Inl AmbiguousSelection"
proof -
  have m: "recordNameMatch ''a.example.com.'' (rr_Name rec_A)"
    by (simp add: recordNameMatch_def rec_A_def)
  have n: "NextRecordName page_A_then_CNAME = Some ''a.example.com.''"
    and t: "NextRecordType page_A_then_CNAME = Some ''CNAME''"
    and r: "ResourceRecordSets page_A_then_CNAME = rec_A # []"
    by (simp_all add: page_A_then_CNAME_def)
  have s: "recordNameMatch ''a.example.com.'' ''a.example.com.''"
    by (simp add: recordNameMatch_def)
  show ?thesis
    using wildcard_followed_by_same_name_is_ambiguous
      [of "\<lparr>Name = ''a.example.com.'', Type = None\<rparr>" "Inr [ex_zone]" fresh_ctx ex_zone
          "\<lparr>zone = Some ex_zone, sent = [ListHostedZones]\<rparr>" "\<lambda>p. Inr page_A_then_CNAME"
          page_A_then_CNAME rec_A "[]" "''a.example.com.''" "''CNAME''"]
      hostZone_example m n t r s
    by simp
qed

lemma pickRecord_not_found:
  "ResourceRecordSets data = [] \<or> \<not> recordNameMatch n (rr_Name (hd (ResourceRecordSets data)))
   \<Longrightarrow> pickRecord n ty data = Inl RecordNotFound"
  by (auto simp: pickRecord_def split: list.splits)

lemma pickRecord_type_mismatch:
  "ResourceRecordSets data \<noteq> [] \<Longrightarrow> recordNameMatch n (rr_Name (hd (ResourceRecordSets data)))
   \<Longrightarrow> \<not> recordTypeMatch ty (Some (rr_Type (hd (ResourceRecordSets data))))
   \<Longrightarrow> pickRecord n ty data = Inl TypeMismatch"
  by (auto simp: pickRecord_def split: list.splits)

lemma pickRecord_ambiguous:
  "pickRecord n ty data = Inl AmbiguousSelection \<Longrightarrow>
     ResourceRecordSets data \<noteq> [] \<and> recordNameMatch n (rr_Name (hd (ResourceRecordSets data))) \<and>
     recordTypeMatch ty (Some (rr_Type (hd (ResourceRecordSets data)))) \<and>
     nextRecordMatch \<lparr>Name = n, Type = ty\<rparr>
       \<lparr>next_Name = NextRecordName data, next_Type = NextRecordType data\<rparr>"
  by (auto simp: pickRecord_def split: list.splits if_splits)

lemma resourceRecord_invalid_type:
  "Type q = Some t \<Longrightarrow> \<not> valid_types_test (Some t) \<Longrightarrow>
     resourceRecord q hz lrrs ctx = (Inl (InvalidType t), ctx)"
  by (simp add: resourceRecord_def)

lemma valid_types_test_examples:
  "valid_types_test (Some ''A'')" "valid_types_test (Some ''MX'')" "valid_types_test (Some ''a'')"
  "\<not> valid_types_test (Some ''X'')" "\<not> valid_types_test None"
  by (simp_all add: valid_types_test_def toString_def canonicalize_def valid_types_def)

text \<open>
  Claim C2. The checks of \<^verbatim>\<open>resourceRecord\<close> come in this order. A supplied type that
  fails the test ends the lookup with the type error, the context untouched: no request
  has been sent and no zone looked up, so the type is never taken for an undefined one.
  Once the zone is found and the page has arrived, an empty page or a first record with
  another name gives the not-found error whatever the types and the declared next record
  are; a first record with the name but another type gives the type error whatever the
  declared next record is; and the ambiguity error is only given when the first record
  has passed the name check and the type check.
\<close>

theorem resourceRecord_check_order:
  "(Type q = Some t \<and> \<not> valid_types_test (Some t) \<longrightarrow>
      resourceRecord q hz lrrs ctx = (Inl (InvalidType t), ctx)) \<and>
   ((valid_types_test (Type q) \<or> Type q = None) \<and>
    hostZone (Name q) hz ctx = (Inr z, ctx') \<and>
    lrrs \<lparr>HostedZoneId = Some (zone_Id z), MaxItems = Some ''1'',
          StartRecordName = Some (Name q), StartRecordType = Type q\<rparr> = Inr data \<longrightarrow>
      (ResourceRecordSets data = [] \<or>
       \<not> recordNameMatch (Name q) (rr_Name (hd (ResourceRecordSets data))) \<longrightarrow>
         fst (resourceRecord q hz lrrs ctx) = Inl RecordNotFound) \<and>
      (ResourceRecordSets data \<noteq> [] \<and>
       recordNameMatch (Name q) (rr_Name (hd (ResourceRecordSets data))) \<and>
       \<not> recordTypeMatch (Type q) (Some (rr_Type (hd (ResourceRecordSets data)))) \<longrightarrow>
         fst (resourceRecord q hz lrrs ctx) = Inl TypeMismatch) \<and>
      (fst (resourceRecord q hz lrrs ctx) = Inl AmbiguousSelection \<longrightarrow>
         ResourceRecordSets data \<noteq> [] \<and>
         recordNameMatch (Name q) (rr_Name (hd (ResourceRecordSets data))) \<and>
         recordTypeMatch (Type q) (Some (rr_Type (hd (ResourceRecordSets data))))))"
proof (intro conjI impI)
  assume "Type q = Some t \<and> \<not> valid_types_test (Some t)"
  then show "resourceRecord q hz lrrs ctx = (Inl (InvalidType t), ctx)"
    by (simp add: resourceRecord_invalid_type)
next
  assume a: "(valid_types_test (Type q) \<or> Type q = None) \<and>
    hostZone (Name q) hz ctx = (Inr z, ctx') \<and>
    lrrs \<lparr>HostedZoneId = Some (zone_Id z), MaxItems = Some ''1'',
          StartRecordName = Some (Name q), StartRecordType = Type q\<rparr> = Inr data"
  then have p: "fst (resourceRecord q hz lrrs ctx) = pickRecord (Name q) (Type q) data"
    by (simp add: resourceRecord_lookup lookupRecord_page)
  {
    assume "ResourceRecordSets data = [] \<or>
       \<not> recordNameMatch (Name q) (rr_Name (hd (ResourceRecordSets data)))"
    then show "fst (resourceRecord q hz lrrs ctx) = Inl RecordNotFound"
      using p by (simp add: pickRecord_not_found)
  }
  {
    assume "ResourceRecordSets data \<noteq> [] \<and>
       recordNameMatch (Name q) (rr_Name (hd (ResourceRecordSets data))) \<and>
       \<not> recordTypeMatch (Type q) (Some (rr_Type (hd (ResourceRecordSets data))))"
    then show "fst (resourceRecord q hz lrrs ctx) = Inl TypeMismatch"
      using p by (simp add: pickRecord_type_mismatch)
  }
  {
    assume "fst (resourceRecord q hz lrrs ctx) = Inl AmbiguousSelection"
    then have amb: "pickRecord (Name q) (Type q) data = Inl AmbiguousSelection"
      using p by simp
    show "ResourceRecordSets data \<noteq> []"
      and "recordNameMatch (Name q) (rr_Name (hd (ResourceRecordSets data)))"
      and "recordTypeMatch (Type q) (Some (rr_Type (hd (ResourceRecordSets data))))"
      using pickRecord_ambiguous [OF amb] by simp_all
  }
qed

theorem resourceRecord_check_order_witness:
  "resourceRecord \<lparr>Name = ''a.example.com.'', Type = Some ''X''\<rparr> (Inr [ex_zone])
     (\<lambda>p. Inr page_A_then_CNAME) fresh_ctx = (Inl (InvalidType ''X''), fresh_ctx) \<and>
   fst (resourceRecord \<lparr>Name = ''a.example.com.'', Type = Some ''A''\<rparr> (Inr [ex_zone])
     (\<lambda>p. Inr page_empty) fresh_ctx) = Inl RecordNotFound \<and>
   fst (resourceRecord \<lparr>Name = ''a.example.com.'', Type = Some ''MX''\<rparr> (Inr [ex_zone])
     (\<lambda>p. Inr page_A_then_CNAME) fresh_ctx) = Inl TypeMismatch \<and>
   fst (resourceRecord \<lparr>Name = ''a.example.com.'', Type = None\<rparr> (Inr [ex_zone])
     (\<lambda>p. Inr page_A_then_CNAME) fresh_ctx) = Inl AmbiguousSelection \<and>
   recordNameMatch ''a.example.com.'' (rr_Name (hd (ResourceRecordSets page_A_then_CNAME))) \<and>
   recordTypeMatch None (Some (rr_Type (hd (ResourceRecordSets page_A_then_CNAME))))"
proof -
  have m: "recordNameMatch ''a.example.com.'' (rr_Name (hd (ResourceRecordSets page_A_then_CNAME)))"
    by (simp add: recordNameMatch_def page_A_then_CNAME_def rec_A_def)
  have 1: "resourceRecord \<lparr>Name = ''a.example.com.'', Type = Some ''X''\<rparr> (Inr [ex_zone])
     (\<lambda>p. Inr page_A_then_CNAME) fresh_ctx = (Inl (InvalidType ''X''), fresh_ctx)"
    using resourceRecord_check_order
      [where q = "\<lparr>Name = ''a.example.com.'', Type = Some ''X''\<rparr>" and t = "''X''"]
      valid_types_test_examples
    by simp
  have 2: "fst (resourceRecord \<lparr>Name = ''a.example.com.'', Type = Some ''A''\<rparr> (Inr [ex_zone])
     (\<lambda>p. Inr page_empty) fresh_ctx) = Inl RecordNotFound"
    using resourceRecord_check_order
      [where q = "\<lparr>Name = ''a.example.com.'', Type = Some ''A''\<rparr>" and hz = "Inr [ex_zone]"
         and ctx = fresh_ctx and z = ex_zone and lrrs = "\<lambda>p. Inr page_empty"
         and ctx' = "\<lparr>zone = Some ex_zone, sent = [ListHostedZones]\<rparr>" and data = page_empty]
      valid_types_test_examples hostZone_example
    by (simp add: page_empty_def)
  have 3: "fst (resourceRecord \<lparr>Name = ''a.example.com.'', Type = Some ''MX''\<rparr> (Inr [ex_zone])
     (\<lambda>p. Inr page_A_then_CNAME) fresh_ctx) = Inl TypeMismatch"
    using resourceRecord_check_order
      [where q = "\<lparr>Name = ''a.example.com.'', Type = Some ''MX''\<rparr>" and hz = "Inr [ex_zone]"
         and ctx = fresh_ctx and z = ex_zone and lrrs = "\<lambda>p. Inr page_A_then_CNAME"
         and ctx' = "\<lparr>zone = Some ex_zone, sent = [ListHostedZones]\<rparr>"
         and data = page_A_then_CNAME]
      valid_types_test_examples hostZone_example m
    by (simp add: page_A_then_CNAME_def rec_A_def recordTypeMatch_def)
  have a: "fst (resourceRecord \<lparr>Name = ''a.example.com.'', Type = None\<rparr> (Inr [ex_zone])
     (\<lambda>p. Inr page_A_then_CNAME) fresh_ctx) = Inl AmbiguousSelection"
    using hostZone_example
    by (simp add: resourceRecord_def valid_types_test_examples lookupRecord_def pickRecord_def
        page_A_then_CNAME_def rec_A_def recordNameMatch_def recordTypeMatch_def
        nextRecordMatch_def)
  have 4: "recordTypeMatch None (Some (rr_Type (hd (ResourceRecordSets page_A_then_CNAME))))"
    using resourceRecord_check_order
      [where q = "\<lparr>Name = ''a.example.com.'', Type = None\<rparr>" and hz = "Inr [ex_zone]"
         and ctx = fresh_ctx and z = ex_zone and lrrs = "\<lambda>p. Inr page_A_then_CNAME"
         and ctx' = "\<lparr>zone = Some ex_zone, sent = [ListHostedZones]\<rparr>"
         and data = page_A_then_CNAME]
      hostZone_example a
    by simp
  show ?thesis using 1 2 3 a m 4 by simp
qed

section \<open>The change batch of an update\<close>

text \<open>
  Claim C3. \<^verbatim>\<open>updateRecord\<close> sends exactly one request, a change batch for the Id of
  the zone it was given, with two changes in this order: DELETE of the old record set,
  then CREATE of the new one; the comment of the options is the comment of the batch.
\<close>

theorem updateRecord_one_batch:
  "sent (snd (updateRecord z old new opts crrs ctx)) =
     sent ctx @
     [ChangeResourceRecordSets
        \<lparr>crrs_HostedZoneId = zone_Id z,
         ChangeBatch =
           \<lparr>Changes = [\<lparr>Action = ''DELETE'', ResourceRecordSet = old\<rparr>,
                       \<lparr>Action = ''CREATE'', ResourceRecordSet = new\<rparr>],
            Comment = comment opts\<rparr>\<rparr>]"
  by (simp add: updateRecord_def Let_def split: sum.splits)

section \<open>Zone lookup: the zone of the context, or the first listed\<close>

lemma find_first:
  "(\<forall>x\<in>set pre. \<not> P x) \<Longrightarrow> P t \<Longrightarrow> find P (pre @ t # post) = Some t"
  by (induction pre) auto

lemma find_none: "(\<forall>x\<in>set zs. \<not> P x) \<Longrightarrow> find P zs = None"
  by (simp add: find_None_iff)

lemma hostZone_predicate_examples:
  "hostZone_predicate ''a.example.com'' ex_zone"
  "\<not> hostZone_predicate ''a.example.com'' sub_zone"
  "hostZone_predicate ''foo.sub.example.com.'' ex_zone"
  "hostZone_predicate ''foo.sub.example.com.'' sub_zone"
  "hostZone_predicate ''sub.example.com.'' ex_zone"
  "\<not> hostZone_predicate ''sub.example.com.'' sub_zone"
  by (simp_all add: hostZone_predicate_def normalizeName_def endsWith_def ex_zone_def
      sub_zone_def)

text \<open>
  Claim C4. When the context holds a zone that satisfies the predicate,
  \<^verbatim>\<open>zoneWhere\<close> returns it and leaves the context as it was: no request sent, the
  zone of the context kept. Otherwise it sends one \<^verbatim>\<open>listHostedZones\<close> request; of
  the zones listed it returns the first, in the order of the listing, that satisfies the
  predicate and makes it the zone of the context, replacing the one held before; when no
  listed zone satisfies the predicate it ends with the zone-not-found error.
\<close>

theorem zoneWhere_cached_or_first_listed:
  "(zone ctx = Some z \<and> P z \<longrightarrow> zoneWhere P hz ctx = (Inr z, ctx)) \<and>
   ((zone ctx = None \<or> \<not> P (the (zone ctx))) \<and> (\<forall>x\<in>set pre. \<not> P x) \<and> P t \<longrightarrow>
      zoneWhere P (Inr (pre @ t # post)) ctx =
        (Inr t, ctx\<lparr>zone := Some t, sent := sent ctx @ [ListHostedZones]\<rparr>)) \<and>
   ((zone ctx = None \<or> \<not> P (the (zone ctx))) \<and> (\<forall>x\<in>set zs. \<not> P x) \<longrightarrow>
      zoneWhere P (Inr zs) ctx =
        (Inl ZoneNotFound, ctx\<lparr>sent := sent ctx @ [ListHostedZones]\<rparr>))"
  by (auto simp: zoneWhere_def Let_def find_first find_none)

theorem zoneWhere_cached_or_first_listed_witness:
  "zoneWhere (hostZone_predicate ''a.example.com'') (Inr [sub_zone, ex_zone])
     \<lparr>zone = Some ex_zone, sent = []\<rparr> = (Inr ex_zone, \<lparr>zone = Some ex_zone, sent = []\<rparr>) \<and>
   zoneWhere (hostZone_predicate ''a.example.com'') (Inr ([sub_zone] @ ex_zone # [sub_zone]))
     \<lparr>zone = Some sub_zone, sent = []\<rparr> =
     (Inr ex_zone, \<lparr>zone = Some ex_zone, sent = [ListHostedZones]\<rparr>) \<and>
   zoneWhere (hostZone_predicate ''a.example.com'') (Inr [sub_zone])
     \<lparr>zone = Some sub_zone, sent = []\<rparr> =
     (Inl ZoneNotFound, \<lparr>zone = Some sub_zone, sent = [ListHostedZones]\<rparr>)"
proof -
  have 1: "zoneWhere (hostZone_predicate ''a.example.com'') (Inr [sub_zone, ex_zone])
     \<lparr>zone = Some ex_zone, sent = []\<rparr> = (Inr ex_zone, \<lparr>zone = Some ex_zone, sent = []\<rparr>)"
    using zoneWhere_cached_or_first_listed
      [where ctx = "\<lparr>zone = Some ex_zone, sent = []\<rparr>" and z = ex_zone
         and P = "hostZone_predicate ''a.example.com''" and hz = "Inr [sub_zone, ex_zone]"]
      hostZone_predicate_examples
    by simp
  have 2: "zoneWhere (hostZone_predicate ''a.example.com'') (Inr ([sub_zone] @ ex_zone # [sub_zone]))
     \<lparr>zone = Some sub_zone, sent = []\<rparr> =
     (Inr ex_zone, \<lparr>zone = Some ex_zone, sent = [ListHostedZones]\<rparr>)"
    using zoneWhere_cached_or_first_listed
      [where ctx = "\<lparr>zone = Some sub_zone, sent = []\<rparr>" and pre = "[sub_zone]" and t = ex_zone
         and post = "[sub_zone]" and P = "hostZone_predicate ''a.example.com''"]
      hostZone_predicate_examples
    by simp
  have 3: "zoneWhere (hostZone_predicate ''a.example.com'') (Inr [sub_zone])
     \<lparr>zone = Some sub_zone, sent = []\<rparr> =
     (Inl ZoneNotFound, \<lparr>zone = Some sub_zone, sent = [ListHostedZones]\<rparr>)"
    using zoneWhere_cached_or_first_listed
      [where ctx = "\<lparr>zone = Some sub_zone, sent = []\<rparr>" and zs = "[sub_zone]"
         and P = "hostZone_predicate ''a.example.com''"]
      hostZone_predicate_examples
    by simp
  show ?thesis using 1 2 3 by simp
qed

section \<open>Enumeration: following truncated pages\<close>

lemma requests_of_simps [simp]:
  "requests_of [] = []"
  "requests_of (Request p # tr) = p # requests_of tr"
  "requests_of (Callback r # tr) = requests_of tr"
  "requests_of (FinalCallback # tr) = requests_of tr"
  "requests_of (Errback m # tr) = requests_of tr"
  "requests_of (tr @ tr') = requests_of tr @ requests_of tr'"
  "requests_of (map Callback rs) = []"
  by (simp_all add: requests_of_def)

lemma delivered_of_simps [simp]:
  "delivered_of [] = []"
  "delivered_of (Request p # tr) = delivered_of tr"
  "delivered_of (Callback r # tr) = r # delivered_of tr"
  "delivered_of (FinalCallback # tr) = delivered_of tr"
  "delivered_of (Errback m # tr) = delivered_of tr"
  "delivered_of (tr @ tr') = delivered_of tr @ delivered_of tr'"
  by (simp_all add: delivered_of_def)

lemma delivered_of_map_Callback [simp]: "delivered_of (map Callback rs) = rs"
  by (induction rs) simp_all

lemma errors_of_simps [simp]:
  "errors_of [] = []"
  "errors_of (Request p # tr) = errors_of tr"
  "errors_of (Callback r # tr) = errors_of tr"
  "errors_of (FinalCallback # tr) = errors_of tr"
  "errors_of (Errback m # tr) = m # errors_of tr"
  "errors_of (tr @ tr') = errors_of tr @ errors_of tr'"
  "errors_of (map Callback rs) = []"
  by (simp_all add: errors_of_def)

lemma count_list_map_Callback [simp]: "count_list (map Callback rs) FinalCallback = 0"
  by (induction rs) simp_all

lemma accepted_filter:
  "filter (\<lambda>record. predicate opts = None \<or> the (predicate opts) record) rs = filter (accepted opts) rs"
  by (rule filter_cong) (auto simp: accepted_def split: option.splits)

lemma hreq_opts_cursor:
  "hreq_opts z (opts\<lparr>request_options := Some
                  (empty_params\<lparr>key_StartRecordType := Some (NextRecordType data),
                                 key_StartRecordName := Some (NextRecordName data)\<rparr>)\<rparr>) = next_request z data"
  by (simp add: hreq_opts_def extend_params_def empty_params_def params_read_def next_request_def)

lemma accepted_cursor:
  "accepted (opts\<lparr>request_options := ro\<rparr>) = accepted opts"
  by (rule ext) (simp add: accepted_def)

lemma zoneRecords_step:
  "IsTruncated data \<Longrightarrow>
   zoneRecords z opts (Inr data # answers) =
     Request (hreq_opts z opts) # map Callback (filter (accepted opts) (ResourceRecordSets data)) @
     zoneRecords z (opts\<lparr>request_options := Some
                  (empty_params\<lparr>key_StartRecordType := Some (NextRecordType data),
                                 key_StartRecordName := Some (NextRecordName data)\<rparr>)\<rparr>) answers"
  by (simp add: accepted_filter)

lemma zoneRecords_last_page:
  "\<not> IsTruncated data \<Longrightarrow>
   zoneRecords z opts (Inr data # answers) =
     Request (hreq_opts z opts) # map Callback (filter (accepted opts) (ResourceRecordSets data)) @
     [FinalCallback]"
  by (simp add: accepted_filter)

lemma zoneRecords_error:
  "zoneRecords z opts (Inl m # answers) = [Request (hreq_opts z opts), Errback m]"
  by simp

lemma zoneRecords_to_last_page:
  "list_all IsTruncated ps \<Longrightarrow> \<not> IsTruncated final \<Longrightarrow>
   requests_of (zoneRecords z opts (map Inr ps @ Inr final # rest)) =
     hreq_opts z opts # map (next_request z) ps \<and>
   delivered_of (zoneRecords z opts (map Inr ps @ Inr final # rest)) =
     filter (accepted opts) (concat (map ResourceRecordSets (ps @ [final]))) \<and>
   count_list (zoneRecords z opts (map Inr ps @ Inr final # rest)) FinalCallback = 1 \<and>
   last (zoneRecords z opts (map Inr ps @ Inr final # rest)) = FinalCallback \<and>
   errors_of (zoneRecords z opts (map Inr ps @ Inr final # rest)) = []"
proof (induction ps arbitrary: opts)
  case Nil
  then show ?case by (simp add: zoneRecords_last_page del: zoneRecords.simps)
next
  case (Cons p ps)
  then have t: "IsTruncated p" and ts: "list_all IsTruncated ps" by simp_all
  let ?opts = "opts\<lparr>request_options := Some
                  (empty_params\<lparr>key_StartRecordType := Some (NextRecordType p),
                                 key_StartRecordName := Some (NextRecordName p)\<rparr>)\<rparr>"
  note ih = Cons.IH [OF ts Cons.prems(2), of ?opts]
  have ne: "zoneRecords z ?opts (map Inr ps @ Inr final # rest) \<noteq> []"
    by (cases ps) simp_all
  show ?case
    using ih ne
    by (simp add: zoneRecords_step [OF t] hreq_opts_cursor accepted_cursor
        del: zoneRecords.simps)
qed

lemma zoneRecords_to_error:
  "list_all IsTruncated ps \<Longrightarrow>
   requests_of (zoneRecords z opts (map Inr ps @ Inl m # rest)) =
     hreq_opts z opts # map (next_request z) ps \<and>
   delivered_of (zoneRecords z opts (map Inr ps @ Inl m # rest)) =
     filter (accepted opts) (concat (map ResourceRecordSets ps)) \<and>
   count_list (zoneRecords z opts (map Inr ps @ Inl m # rest)) FinalCallback = 0 \<and>
   last (zoneRecords z opts (map Inr ps @ Inl m # rest)) = Errback m \<and>
   errors_of (zoneRecords z opts (map Inr ps @ Inl m # rest)) = [m]"
proof (induction ps arbitrary: opts)
  case Nil
  then show ?case by simp
next
  case (Cons p ps)
  then have t: "IsTruncated p" and ts: "list_all IsTruncated ps" by simp_all
  let ?opts = "opts\<lparr>request_options := Some
                  (empty_params\<lparr>key_StartRecordType := Some (NextRecordType p),
                                 key_StartRecordName := Some (NextRecordName p)\<rparr>)\<rparr>"
  note ih = Cons.IH [OF ts, of ?opts]
  have ne: "zoneRecords z ?opts (map Inr ps @ Inl m # rest) \<noteq> []"
    by (cases ps) simp_all
  show ?case
    using ih ne
    by (simp add: zoneRecords_step [OF t] hreq_opts_cursor accepted_cursor
        del: zoneRecords.simps)
qed

text \<open>
  Claim C9. Let the provider answer the page requests of \<^verbatim>\<open>zoneRecords\<close> with
  truncated pages \<open>ps\<close> and then with a page that is not truncated. Then the requests
  sent are the first one and, for each truncated page in turn, one for the zone that
  starts at the next name and next type the page declares; the callback receives exactly
  the accepted records of all these pages, in the provider's order; the final callback
  is invoked once, as the last thing, and the error handler never; answers that would
  come later are not asked for. If instead the provider answers with an error after the
  truncated pages, the error handler gets its message as the last thing, the final
  callback is not invoked, and the accepted records of the pages before the error have
  been delivered.
\<close>

theorem zoneRecords_follows_truncation:
  "list_all IsTruncated ps \<Longrightarrow>
   (\<not> IsTruncated final \<longrightarrow>
      requests_of (zoneRecords z opts (map Inr ps @ Inr final # rest)) =
        hreq_opts z opts # map (next_request z) ps \<and>
      delivered_of (zoneRecords z opts (map Inr ps @ Inr final # rest)) =
        filter (accepted opts) (concat (map ResourceRecordSets (ps @ [final]))) \<and>
      count_list (zoneRecords z opts (map Inr ps @ Inr final # rest)) FinalCallback = 1 \<and>
      last (zoneRecords z opts (map Inr ps @ Inr final # rest)) = FinalCallback \<and>
      errors_of (zoneRecords z opts (map Inr ps @ Inr final # rest)) = []) \<and>
   requests_of (zoneRecords z opts (map Inr ps @ Inl m # rest)) =
     hreq_opts z opts # map (next_request z) ps \<and>
   delivered_of (zoneRecords z opts (map Inr ps @ Inl m # rest)) =
     filter (accepted opts) (concat (map ResourceRecordSets ps)) \<and>
   count_list (zoneRecords z opts (map Inr ps @ Inl m # rest)) FinalCallback = 0 \<and>
   last (zoneRecords z opts (map Inr ps @ Inl m # rest)) = Errback m \<and>
   errors_of (zoneRecords z opts (map Inr ps @ Inl m # rest)) = [m]"
  using zoneRecords_to_last_page [of ps final z opts rest]
    zoneRecords_to_error [of ps z opts m rest]
  by blast

theorem zoneRecords_follows_truncation_witness:
  "list_all IsTruncated [page_1, page_2] \<and> \<not> IsTruncated page_3 \<and>
   requests_of (zoneRecords ex_zone only_TXT [Inr page_1, Inr page_2, Inr page_3]) =
     [\<lparr>HostedZoneId = Some ''Z1'', MaxItems = None, StartRecordName = None,
        StartRecordType = None\<rparr>,
      \<lparr>HostedZoneId = Some ''Z1'', MaxItems = None,
        StartRecordName = Some ''r2.example.com.'', StartRecordType = Some ''A''\<rparr>,
      \<lparr>HostedZoneId = Some ''Z1'', MaxItems = None,
        StartRecordName = Some ''r4.example.com.'', StartRecordType = Some ''A''\<rparr>] \<and>
   delivered_of (zoneRecords ex_zone only_TXT [Inr page_1, Inr page_2, Inr page_3]) =
     [rec_of ''r1.example.com.'' ''TXT'', rec_of ''r3.example.com.'' ''TXT''] \<and>
   count_list (zoneRecords ex_zone only_TXT [Inr page_1, Inr page_2, Inr page_3])
     FinalCallback = 1 \<and>
   delivered_of (zoneRecords ex_zone only_TXT [Inr page_1, Inr page_2, Inl ''Throttling'']) =
     [rec_of ''r1.example.com.'' ''TXT'', rec_of ''r3.example.com.'' ''TXT''] \<and>
   count_list (zoneRecords ex_zone only_TXT [Inr page_1, Inr page_2, Inl ''Throttling''])
     FinalCallback = 0 \<and>
   errors_of (zoneRecords ex_zone only_TXT [Inr page_1, Inr page_2, Inl ''Throttling'']) =
     [''Throttling'']"
proof -
  have t: "list_all IsTruncated [page_1, page_2]" and f: "\<not> IsTruncated page_3"
    by (simp_all add: page_1_def page_2_def page_3_def)
  have h: "hreq_opts ex_zone only_TXT =
      \<lparr>HostedZoneId = Some ''Z1'', MaxItems = None, StartRecordName = None,
        StartRecordType = None\<rparr>"
    by (simp add: hreq_opts_def only_TXT_def extend_params_def empty_params_def params_read_def
        ex_zone_def)
  have n: "next_request ex_zone page_1 =
      \<lparr>HostedZoneId = Some ''Z1'', MaxItems = None,
        StartRecordName = Some ''r2.example.com.'', StartRecordType = Some ''A''\<rparr>"
    "next_request ex_zone page_2 =
      \<lparr>HostedZoneId = Some ''Z1'', MaxItems = None,
        StartRecordName = Some ''r4.example.com.'', StartRecordType = Some ''A''\<rparr>"
    by (simp_all add: next_request_def page_1_def page_2_def ex_zone_def)
  have a: "filter (accepted only_TXT) (ResourceRecordSets page_1) =
      [rec_of ''r1.example.com.'' ''TXT'']"
    "filter (accepted only_TXT) (ResourceRecordSets page_2) = [rec_of ''r3.example.com.'' ''TXT'']"
    "filter (accepted only_TXT) (ResourceRecordSets page_3) = []"
    by (simp_all add: accepted_def only_TXT_def page_1_def page_2_def page_3_def rec_of_def)
  show ?thesis
    using zoneRecords_follows_truncation
      [OF t, of page_3 ex_zone only_TXT "[]" "''Throttling''"] f t
    by (simp add: h n a del: zoneRecords.simps)
qed

section \<open>The apex of a zone\<close>

lemma apex_not_owned:
  "normalizeName host = zone_Name z \<Longrightarrow> \<not> hostZone_predicate host z"
  by (simp add: hostZone_predicate_def endsWith_def Let_def)

lemma zoneWhere_none_satisfies:
  assumes "zone ctx = None \<or> \<not> P (the (zone ctx))" and "\<forall>x\<in>set zs. \<not> P x"
  shows "zoneWhere P (Inr zs) ctx = (Inl ZoneNotFound, ctx\<lparr>sent := sent ctx @ [ListHostedZones]\<rparr>)"
  using assms by (auto simp: zoneWhere_def Let_def find_none)

lemma zoneWhere_some_satisfies:
  assumes "z \<in> set zs" and "P z"
  shows "\<exists>z'. fst (zoneWhere P (Inr zs) ctx) = Inr z' \<and> P z'"
proof (cases "zone ctx \<noteq> None \<and> P (the (zone ctx))")
  case True
  then show ?thesis by (simp add: zoneWhere_def)
next
  case False
  from assms obtain t where "find P zs = Some t"
    by (cases "find P zs") (auto simp: find_None_iff)
  moreover from this have "P t" by (auto simp: find_Some_iff)
  ultimately show ?thesis using False by (auto simp: zoneWhere_def Let_def)
qed

text \<open>
  Claim C5, as amended. A host whose normalized name is the Name of a zone does not
  satisfy the predicate of \<^verbatim>\<open>hostZone\<close> for that zone. So the lookup of a record whose
  name is the apex of a zone ends with the zone-not-found error, after one listing,
  whenever no zone with another Name, held by the context or listed, satisfies the
  predicate for the name. A host that satisfies the predicate for a listed zone gets an
  owner that satisfies it.
\<close>

theorem apex_lookup_zone_not_found:
  "(normalizeName host = zone_Name z \<longrightarrow> \<not> hostZone_predicate host z) \<and>
   ((valid_types_test (Type q) \<or> Type q = None) \<and>
    (\<forall>x\<in>set zs \<union> set_option (zone ctx).
       zone_Name x \<noteq> normalizeName (Name q) \<longrightarrow> \<not> hostZone_predicate (Name q) x) \<longrightarrow>
      resourceRecord q (Inr zs) lrrs ctx =
        (Inl ZoneNotFound, ctx\<lparr>sent := sent ctx @ [ListHostedZones]\<rparr>)) \<and>
   (z \<in> set zs \<and> hostZone_predicate host z \<longrightarrow>
      (\<exists>owner. fst (hostZone host (Inr zs) ctx) = Inr owner \<and> hostZone_predicate host owner))"
proof (intro conjI impI)
  assume "normalizeName host = zone_Name z"
  then show "\<not> hostZone_predicate host z" by (rule apex_not_owned)
next
  assume a: "(valid_types_test (Type q) \<or> Type q = None) \<and>
    (\<forall>x\<in>set zs \<union> set_option (zone ctx).
       zone_Name x \<noteq> normalizeName (Name q) \<longrightarrow> \<not> hostZone_predicate (Name q) x)"
  then have no: "\<And>x. x \<in> set zs \<union> set_option (zone ctx) \<Longrightarrow> \<not> hostZone_predicate (Name q) x"
    using apex_not_owned [of "Name q"] by metis
  have "zone ctx = None \<or> \<not> hostZone_predicate (Name q) (the (zone ctx))"
    using no by (cases "zone ctx") auto
  moreover have "\<forall>x\<in>set zs. \<not> hostZone_predicate (Name q) x"
    using no by simp
  ultimately have "hostZone (Name q) (Inr zs) ctx =
      (Inl ZoneNotFound, ctx\<lparr>sent := sent ctx @ [ListHostedZones]\<rparr>)"
    unfolding hostZone_def by (rule zoneWhere_none_satisfies)
  then show "resourceRecord q (Inr zs) lrrs ctx =
      (Inl ZoneNotFound, ctx\<lparr>sent := sent ctx @ [ListHostedZones]\<rparr>)"
    using a by (simp add: resourceRecord_lookup lookupRecord_def)
next
  assume "z \<in> set zs \<and> hostZone_predicate host z"
  then show "\<exists>owner. fst (hostZone host (Inr zs) ctx) = Inr owner \<and> hostZone_predicate host owner"
    unfolding hostZone_def using zoneWhere_some_satisfies by blast
qed

theorem apex_lookup_zone_not_found_witness:
  "normalizeName ''sub.example.com'' = zone_Name sub_zone \<and>
   \<not> hostZone_predicate ''sub.example.com'' sub_zone \<and>
   resourceRecord \<lparr>Name = ''sub.example.com'', Type = None\<rparr> (Inr [sub_zone])
     (\<lambda>p. Inr page_NS) fresh_ctx = (Inl ZoneNotFound, \<lparr>zone = None, sent = [ListHostedZones]\<rparr>) \<and>
   (\<exists>owner. fst (hostZone ''foo.sub.example.com.'' (Inr [sub_zone, ex_zone]) fresh_ctx) = Inr owner
      \<and> hostZone_predicate ''foo.sub.example.com.'' owner)"
proof -
  have n: "normalizeName ''sub.example.com'' = zone_Name sub_zone"
    by (simp add: normalizeName_def endsWith_def sub_zone_def)
  have 1: "\<not> hostZone_predicate ''sub.example.com'' sub_zone"
    using apex_lookup_zone_not_found [where host = "''sub.example.com''" and z = sub_zone] n
    by simp
  have 2: "resourceRecord \<lparr>Name = ''sub.example.com'', Type = None\<rparr> (Inr [sub_zone])
     (\<lambda>p. Inr page_NS) fresh_ctx = (Inl ZoneNotFound, \<lparr>zone = None, sent = [ListHostedZones]\<rparr>)"
    using apex_lookup_zone_not_found
      [where q = "\<lparr>Name = ''sub.example.com'', Type = None\<rparr>" and zs = "[sub_zone]"
         and ctx = fresh_ctx and lrrs = "\<lambda>p. Inr page_NS"] n
    by (simp add: fresh_ctx_def)
  have 3: "\<exists>owner. fst (hostZone ''foo.sub.example.com.'' (Inr [sub_zone, ex_zone]) fresh_ctx) = Inr owner
      \<and> hostZone_predicate ''foo.sub.example.com.'' owner"
    using apex_lookup_zone_not_found
      [where host = "''foo.sub.example.com.''" and z = ex_zone and zs = "[sub_zone, ex_zone]"
         and ctx = fresh_ctx]
      hostZone_predicate_examples
    by simp
  show ?thesis using n 1 2 3 by simp
qed

text \<open>
  The claim as stated fails when a parent of the zone is listed too: the lookup at the
  apex of \<^verbatim>\<open>sub.example.com.\<close> goes on in \<^verbatim>\<open>example.com.\<close> and returns the
  record found there.
\<close>

theorem apex_lookup_continues_in_parent_zone:
  "zone_Name sub_zone = ''sub.example.com.'' \<and> sub_zone \<in> set [sub_zone, ex_zone] \<and>
   fst (resourceRecord \<lparr>Name = ''sub.example.com.'', Type = None\<rparr> (Inr [sub_zone, ex_zone])
          (\<lambda>p. Inr page_NS) fresh_ctx) = Inr (rec_of ''sub.example.com.'' ''NS'') \<and>
   fst (resourceRecord \<lparr>Name = ''sub.example.com.'', Type = None\<rparr> (Inr [sub_zone, ex_zone])
          (\<lambda>p. Inr page_NS) fresh_ctx) \<noteq> Inl ZoneNotFound"
proof -
  have hz: "hostZone ''sub.example.com.'' (Inr [sub_zone, ex_zone]) fresh_ctx =
      (Inr ex_zone, \<lparr>zone = Some ex_zone, sent = [ListHostedZones]\<rparr>)"
    by (simp add: hostZone_def zoneWhere_def hostZone_predicate_examples fresh_ctx_def)
  have "fst (lookupRecord ''sub.example.com.'' None (Inr [sub_zone, ex_zone])
          (\<lambda>p. Inr page_NS) fresh_ctx) = pickRecord ''sub.example.com.'' None page_NS"
    using hz by (simp add: lookupRecord_page)
  moreover have "pickRecord ''sub.example.com.'' None page_NS = Inr (rec_of ''sub.example.com.'' ''NS'')"
    by (simp add: pickRecord_def page_NS_def rec_of_def recordNameMatch_def recordTypeMatch_def
        nextRecordMatch_def normalizeName_def endsWith_def)
  ultimately show ?thesis
    by (simp add: resourceRecord_lookup sub_zone_def)
qed

section \<open>Zone predicates and the name of the zone\<close>

lemma zoneWhere_cong:
  assumes "\<forall>x\<in>set zs \<union> set_option (zone ctx). P x = Q x"
  shows "zoneWhere P (Inr zs) ctx = zoneWhere Q (Inr zs) ctx"
proof -
  have f: "find P zs = find Q zs"
    using assms by (intro find_cong) auto
  show ?thesis
  proof (cases "zone ctx")
    case None
    then show ?thesis by (simp add: zoneWhere_def f)
  next
    case (Some c)
    then have "P c = Q c" using assms by simp
    then show ?thesis using Some by (simp add: zoneWhere_def f)
  qed
qed

lemma zoneNamed_predicate_normalized:
  "endsWith (zone_Name z) ''.'' \<Longrightarrow>
     zoneNamed_predicate n z = (normalizeName n = normalizeName (zone_Name z))"
  by (auto simp: zoneNamed_predicate_def Let_def normalizeName_fixed)

lemma hostZone_predicate_normalized:
  "endsWith (zone_Name z) ''.'' \<Longrightarrow>
     hostZone_predicate h z = endsWith (normalizeName h) (''.'' @ normalizeName (zone_Name z))"
  by (simp add: hostZone_predicate_def Let_def normalizeName_fixed)

text \<open>
  Claim C6. The provider returns the Name of a hosted zone fully qualified, ending with
  the dot, and the code compares the Name as it was returned. For such a zone the Name
  compared is the normalized Name: the predicate of \<^verbatim>\<open>zoneNamed\<close> holds exactly when
  the normalized query name equals the normalized Name of the zone, and the predicate of
  \<^verbatim>\<open>hostZone\<close> exactly when the normalized host ends with a dot followed by the
  normalized Name of the zone. Hence, when the zones listed and the zone held by the
  context have such names, \<^verbatim>\<open>zoneNamed\<close> and \<^verbatim>\<open>hostZone\<close> are \<^verbatim>\<open>zoneWhere\<close>
  with these two predicates.
\<close>

theorem zone_predicates_on_returned_zones:
  "(endsWith (zone_Name z) ''.'' \<longrightarrow>
      normalizeName (zone_Name z) = zone_Name z \<and>
      zoneNamed_predicate n z = (normalizeName n = normalizeName (zone_Name z)) \<and>
      hostZone_predicate h z =
        endsWith (normalizeName h) (''.'' @ normalizeName (zone_Name z))) \<and>
   ((\<forall>x\<in>set zs \<union> set_option (zone ctx). endsWith (zone_Name x) ''.'') \<longrightarrow>
      zoneNamed n (Inr zs) ctx =
        zoneWhere (\<lambda>x. normalizeName n = normalizeName (zone_Name x)) (Inr zs) ctx \<and>
      hostZone h (Inr zs) ctx =
        zoneWhere (\<lambda>x. endsWith (normalizeName h) (''.'' @ normalizeName (zone_Name x)))
          (Inr zs) ctx)"
proof (intro conjI impI)
  assume d: "endsWith (zone_Name z) ''.''"
  show "normalizeName (zone_Name z) = zone_Name z"
    using d by (rule normalizeName_fixed)
  show "zoneNamed_predicate n z = (normalizeName n = normalizeName (zone_Name z))"
    using d by (rule zoneNamed_predicate_normalized)
  show "hostZone_predicate h z =
      endsWith (normalizeName h) (''.'' @ normalizeName (zone_Name z))"
    using d by (rule hostZone_predicate_normalized)
next
  assume a: "\<forall>x\<in>set zs \<union> set_option (zone ctx). endsWith (zone_Name x) ''.''"
  show "zoneNamed n (Inr zs) ctx =
      zoneWhere (\<lambda>x. normalizeName n = normalizeName (zone_Name x)) (Inr zs) ctx"
    unfolding zoneNamed_def
    using a by (intro zoneWhere_cong) (simp add: zoneNamed_predicate_normalized)
  show "hostZone h (Inr zs) ctx =
      zoneWhere (\<lambda>x. endsWith (normalizeName h) (''.'' @ normalizeName (zone_Name x)))
        (Inr zs) ctx"
    unfolding hostZone_def
    using a by (intro zoneWhere_cong) (simp add: hostZone_predicate_normalized)
qed

theorem zone_predicates_on_returned_zones_witness:
  "endsWith (zone_Name ex_zone) ''.'' \<and> endsWith (zone_Name sub_zone) ''.'' \<and>
   zoneNamed_predicate ''example.com'' ex_zone =
     (normalizeName ''example.com'' = normalizeName (zone_Name ex_zone)) \<and>
   hostZone_predicate ''a.example.com'' ex_zone =
     endsWith (normalizeName ''a.example.com'') (''.'' @ normalizeName (zone_Name ex_zone)) \<and>
   zoneNamed ''example.com'' (Inr [sub_zone, ex_zone]) \<lparr>zone = Some sub_zone, sent = []\<rparr> =
     zoneWhere (\<lambda>x. normalizeName ''example.com'' = normalizeName (zone_Name x))
       (Inr [sub_zone, ex_zone]) \<lparr>zone = Some sub_zone, sent = []\<rparr> \<and>
   hostZone ''a.example.com'' (Inr [sub_zone, ex_zone]) \<lparr>zone = Some sub_zone, sent = []\<rparr> =
     zoneWhere (\<lambda>x. endsWith (normalizeName ''a.example.com'')
                       (''.'' @ normalizeName (zone_Name x)))
       (Inr [sub_zone, ex_zone]) \<lparr>zone = Some sub_zone, sent = []\<rparr> \<and>
   zoneNamed ''example.com'' (Inr [sub_zone, ex_zone]) \<lparr>zone = Some sub_zone, sent = []\<rparr> =
     (Inr ex_zone, \<lparr>zone = Some ex_zone, sent = [ListHostedZones]\<rparr>)"
proof -
  have d: "endsWith (zone_Name ex_zone) ''.''" and e: "endsWith (zone_Name sub_zone) ''.''"
    by (simp_all add: endsWith_def ex_zone_def sub_zone_def)
  have a: "\<forall>x\<in>set [sub_zone, ex_zone] \<union> set_option (zone \<lparr>zone = Some sub_zone, sent = []\<rparr>).
      endsWith (zone_Name x) ''.''"
    using d e by simp
  note t = zone_predicates_on_returned_zones
      [where z = ex_zone and n = "''example.com''" and h = "''a.example.com''"
         and zs = "[sub_zone, ex_zone]" and ctx = "\<lparr>zone = Some sub_zone, sent = []\<rparr>"]
  note p = t [THEN conjunct1, THEN mp, OF d]
  note w = t [THEN conjunct2, THEN mp, OF a]
  have v: "zoneNamed ''example.com'' (Inr [sub_zone, ex_zone]) \<lparr>zone = Some sub_zone, sent = []\<rparr> =
     (Inr ex_zone, \<lparr>zone = Some ex_zone, sent = [ListHostedZones]\<rparr>)"
    by (simp add: zoneNamed_def zoneWhere_def zoneNamed_predicate_def normalizeName_def
        endsWith_def ex_zone_def sub_zone_def)
  show ?thesis
    using d e p w v by blast
qed

section \<open>A supplied type in lower case\<close>

text \<open>
  Claim C7, at a failing input. The type \<^verbatim>\<open>a\<close> passes the test, and is then used as
  it was given: the page request starts at record type \<^verbatim>\<open>a\<close>, and the record of
  type \<^verbatim>\<open>A\<close> that the provider returns is rejected by the type check. The same
  query with the type \<^verbatim>\<open>A\<close> returns the record.
\<close>

theorem lower_case_type_used_as_given:
  "valid_types_test (Some ''a'') \<and>
   resourceRecord \<lparr>Name = ''a.example.com.'', Type = Some ''a''\<rparr> (Inr [ex_zone])
     (\<lambda>p. Inr page_A_then_other) fresh_ctx =
     (Inl TypeMismatch,
      \<lparr>zone = Some ex_zone,
       sent = [ListHostedZones,
               ListResourceRecordSets
                 \<lparr>HostedZoneId = Some ''Z1'', MaxItems = Some ''1'',
                  StartRecordName = Some ''a.example.com.'', StartRecordType = Some ''a''\<rparr>]\<rparr>) \<and>
   resourceRecord \<lparr>Name = ''a.example.com.'', Type = Some ''A''\<rparr> (Inr [ex_zone])
     (\<lambda>p. Inr page_A_then_other) fresh_ctx =
     (Inr rec_A,
      \<lparr>zone = Some ex_zone,
       sent = [ListHostedZones,
               ListResourceRecordSets
                 \<lparr>HostedZoneId = Some ''Z1'', MaxItems = Some ''1'',
                  StartRecordName = Some ''a.example.com.'', StartRecordType = Some ''A''\<rparr>]\<rparr>)"
proof -
  have p: "pickRecord ''a.example.com.'' (Some ''a'') page_A_then_other = Inl TypeMismatch"
    "pickRecord ''a.example.com.'' (Some ''A'') page_A_then_other = Inr rec_A"
    by (simp_all add: pickRecord_def page_A_then_other_def rec_A_def recordNameMatch_def
        recordTypeMatch_def nextRecordMatch_def normalizeName_def endsWith_def)
  show ?thesis
    using hostZone_example
    by (simp add: resourceRecord_def valid_types_test_examples lookupRecord_def p ex_zone_def)
qed

end
